theory Spec2Isabelle
  imports Main "HOL-Library.Word"
begin

section \<open>Python values used by the client\<close>

text \<open>
  A Python \<open>str\<close> is a sequence of Unicode code points, so it is modelled as a list of
  natural numbers; \<open>bytes\<close> is a list of 8-bit words. \<open>lit\<close> embeds an ASCII literal of
  the source.
\<close>

type_synonym str = "nat list"
type_synonym bytes = "8 word list"

definition lit :: "string \<Rightarrow> str" where
  "lit s = map of_char s"

text \<open>\<open>str(n)\<close> for an integer, as the f-strings of the source render ids.\<close>

fun digits :: "nat \<Rightarrow> str" where
  "digits n = (if n < 10 then [48 + n] else digits (n div 10) @ [48 + n mod 10])"

declare digits.simps [simp del]

definition str_int :: "int \<Rightarrow> str" where
  "str_int i = (if i < 0 then 45 # digits (nat (- i)) else digits (nat i))"

text \<open>
  The handlers of the source distinguish two classes of exception: \<open>ValueError\<close> (and its
  subclasses) and everything else below \<open>Exception\<close>. The argument is \<open>str(e)\<close>.
\<close>

datatype exn = ValueError str | OtherError str

fun str_exn :: "exn \<Rightarrow> str" where
  "str_exn (ValueError m) = m"
| "str_exn (OtherError m) = m"

text \<open>
  What a command writes: \<open>Console\<close> is a call of rich's \<open>console.print\<close> with its markup
  argument, \<open>Stdout\<close> a call of the builtin \<open>print\<close>, \<open>Console_Panel\<close> the highlighted
  panel (title and text) handed to the rendering library.
\<close>

datatype out_event = Console str | Stdout str | Console_Panel str str

section \<open>Presentation: status styles\<close>

definition status_styles :: "(str \<times> str) list" where
  "status_styles =
    [(lit ''success'', lit ''green''),
     (lit ''failed'', lit ''red''),
     (lit ''running'', lit ''blue''),
     (lit ''pending'', lit ''yellow''),
     (lit ''canceled'', lit ''red''),
     (lit ''skipped'', lit ''grey''),
     (lit ''created'', lit ''cyan''),
     (lit ''manual'', lit ''magenta'')]"

text \<open>\<open>status_styles.get(status, 'white')\<close>\<close>

definition get_status_style :: "str \<Rightarrow> str" where
  "get_status_style status =
    (case map_of status_styles status of Some style \<Rightarrow> style | None \<Rightarrow> lit ''white'')"

text \<open>The status enum of the specification's data model.\<close>

definition known_statuses :: "str list" where
  "known_statuses =
    [lit ''created'', lit ''pending'', lit ''running'', lit ''success'',
     lit ''failed'', lit ''canceled'', lit ''skipped'', lit ''manual'']"

section \<open>Remote entities and the project handle\<close>

text \<open>
  The attributes the source reads from a pipeline and from a job object of the remote
  library.
\<close>

record pipeline =
  pipeline_id :: int
  pipeline_status :: str
  pipeline_ref :: str
  pipeline_sha :: str
  pipeline_created_at :: str

record job =
  job_id :: int
  job_stage :: str
  job_name :: str
  job_status :: str

text \<open>
  \<open>{'key': k, 'value': v}\<close>, one record of the variables list, and the dictionary
  \<open>{'ref': ref, 'variables': variables_list}\<close> passed to \<open>pipelines.create\<close>.
\<close>

record variable =
  var_key :: str
  var_value :: str

record create_data =
  data_ref :: str
  data_variables :: "variable list option"

text \<open>
  What \<open>job.trace()\<close> returns: bytes, or some other value that the source returns
  unchanged (taken as text, after the annotation \<open>-> str\<close>).
\<close>

datatype trace_val = Trace_Bytes bytes | Trace_Text str

text \<open>
  The project handle \<open>self.project\<close>: each call of the remote library either returns a
  value or raises. The fields are \<open>project.pipelines.list(per_page=limit)\<close>,
  \<open>project.pipelines.get(id)\<close>, \<open>project.pipelines.create(data)\<close>,
  \<open>pipeline.jobs.list(all=True)\<close>, \<open>project.jobs.get(id)\<close> and \<open>job.trace()\<close>.
\<close>

record project =
  pipelines_list :: "int \<Rightarrow> exn + pipeline list"
  pipelines_get :: "int \<Rightarrow> exn + pipeline"
  pipelines_create :: "create_data \<Rightarrow> exn + pipeline"
  pipeline_jobs_list :: "pipeline \<Rightarrow> exn + job list"
  jobs_get :: "int \<Rightarrow> exn + job"
  job_trace :: "job \<Rightarrow> exn + trace_val"

text \<open>
  A job id reaches the client as an integer or as a string. \<open>int(job_id)\<close> of an integer
  is the integer; of a string it is what Python's parser gives, taken as a parameter
  \<open>parse\<close> (\<open>None\<close> where \<open>int\<close> raises \<open>ValueError\<close>). \<open>fmt_id\<close> is \<open>{job_id}\<close> in an
  f-string.
\<close>

datatype id_arg = Int_Id int | Str_Id str

fun py_int :: "(str \<Rightarrow> int option) \<Rightarrow> id_arg \<Rightarrow> int option" where
  "py_int parse (Int_Id n) = Some n"
| "py_int parse (Str_Id s) = parse s"

fun fmt_id :: "id_arg \<Rightarrow> str" where
  "fmt_id (Int_Id n) = str_int n"
| "fmt_id (Str_Id s) = s"

section \<open>The client\<close>

text \<open>Every operation returns its value together with what it printed on the console.\<close>

definition bold_red :: "str \<Rightarrow> out_event" where
  "bold_red msg = Console (lit ''[bold red]'' @ msg @ lit ''[/bold red]'')"

definition get_pipelines :: "project \<Rightarrow> int \<Rightarrow> pipeline list \<times> out_event list" where
  "get_pipelines prj limit =
    (case pipelines_list prj limit of
       Inr ps \<Rightarrow> (ps, [])
     | Inl e \<Rightarrow> ([], [bold_red (lit ''Failed to get pipelines: '' @ str_exn e)]))"

definition get_pipeline :: "project \<Rightarrow> int \<Rightarrow> pipeline option \<times> out_event list" where
  "get_pipeline prj pid =
    (case pipelines_get prj pid of
       Inr p \<Rightarrow> (Some p, [])
     | Inl e \<Rightarrow>
         (None, [bold_red (lit ''Failed to get pipeline '' @ str_int pid @ lit '': '' @ str_exn e)]))"

text \<open>\<open>pipelines[0] if pipelines else None\<close>\<close>

definition get_latest_pipeline :: "project \<Rightarrow> pipeline option \<times> out_event list" where
  "get_latest_pipeline prj =
    (let (pipelines, out) = get_pipelines prj 1
     in (if pipelines \<noteq> [] then Some (pipelines ! 0) else None, out))"

text \<open>
  A dictionary of variables is an association list in insertion order, which is the order
  of \<open>variables.items()\<close>; an empty dictionary and \<open>None\<close> are both false in
  \<open>if variables:\<close>.
\<close>

definition variables_list :: "(str \<times> str) list option \<Rightarrow> variable list option" where
  "variables_list variables =
    (case variables of
       None \<Rightarrow> None
     | Some vs \<Rightarrow>
         if vs \<noteq> [] then Some (map (\<lambda>(k, v). \<lparr>var_key = k, var_value = v\<rparr>) vs) else None)"

definition create_request :: "str \<Rightarrow> (str \<times> str) list option \<Rightarrow> create_data" where
  "create_request ref variables =
    \<lparr>data_ref = ref, data_variables = variables_list variables\<rparr>"

definition create_pipeline ::
  "project \<Rightarrow> str \<Rightarrow> (str \<times> str) list option \<Rightarrow> pipeline option \<times> out_event list" where
  "create_pipeline prj ref variables =
    (case pipelines_create prj (create_request ref variables) of
       Inr p \<Rightarrow> (Some p, [])
     | Inl e \<Rightarrow> (None, [bold_red (lit ''Failed to create pipeline: '' @ str_exn e)]))"

definition get_jobs :: "project \<Rightarrow> int \<Rightarrow> job list \<times> out_event list" where
  "get_jobs prj pid =
    (case get_pipeline prj pid of
       (Some p, out) \<Rightarrow>
         (case pipeline_jobs_list prj p of
            Inr js \<Rightarrow> (js, out)
          | Inl e \<Rightarrow>
              ([], out @ [bold_red (lit ''Failed to get jobs for pipeline '' @ str_int pid
                                     @ lit '': '' @ str_exn e)]))
     | (None, out) \<Rightarrow> ([], out))"

definition invalid_job_id :: "str \<Rightarrow> out_event" where
  "invalid_job_id shown =
    bold_red (lit ''Invalid job ID: '' @ shown @ lit ''. Job ID must be an integer.'')"

text \<open>
  \<open>console.print\<close> parses the markup of its argument and raises \<open>MarkupError\<close> (an
  \<open>Exception\<close>, not a \<open>ValueError\<close>) when a closing tag matches no open tag. Which
  texts the rendering library rejects is a parameter \<open>markup_error\<close>, giving the message
  of the error. A print inside an \<open>except\<close> clause that raises leaves the function with
  that exception. The check is applied where the printed text holds a string of the
  caller or the message of such an error; an integer id renders as digits, and the text
  of an exception of the remote library is taken to hold no markup.
\<close>

definition console_print :: "(str \<Rightarrow> str option) \<Rightarrow> out_event \<Rightarrow> exn + out_event" where
  "console_print markup_error ev =
    (case ev of
       Console text \<Rightarrow>
         (case markup_error text of Some msg \<Rightarrow> Inl (OtherError msg) | None \<Rightarrow> Inr ev)
     | Stdout text \<Rightarrow> Inr ev
     | Console_Panel title text \<Rightarrow> Inr ev)"

text \<open>
  In \<open>get_job\<close> the name \<open>job_id\<close> is rebound to the integer before the remote call, so
  a handler that runs after the conversion prints the integer, and the \<open>ValueError\<close>
  handler that runs because the conversion failed prints the original argument.
\<close>

definition get_job ::
  "(str \<Rightarrow> str option) \<Rightarrow> (str \<Rightarrow> int option) \<Rightarrow> project \<Rightarrow> id_arg
    \<Rightarrow> exn + (job option \<times> out_event list)" where
  "get_job markup_error parse prj jid =
    (case py_int parse jid of
       None \<Rightarrow>
         (case console_print markup_error (invalid_job_id (fmt_id jid)) of
            Inl raised \<Rightarrow> Inl raised
          | Inr ev \<Rightarrow> Inr (None, [ev]))
     | Some n \<Rightarrow>
         (case jobs_get prj n of
            Inr j \<Rightarrow> Inr (Some j, [])
          | Inl (ValueError m) \<Rightarrow> Inr (None, [invalid_job_id (str_int n)])
          | Inl (OtherError m) \<Rightarrow>
              Inr (None, [bold_red (lit ''Failed to get job '' @ str_int n @ lit '': '' @ m)])))"

section \<open>Decoding a job trace\<close>

text \<open>
  \<open>logs_bytes.decode('utf-8', errors='replace')\<close> is Python's builtin decoder, not code
  of the repository. It is modelled after the interpreter's decoder: a scan that yields
  one item for each well-formed sequence and one \<open>Malformed\<close> item for each error span
  (an invalid start byte, a lead byte and the continuation bytes that were accepted
  before an invalid one, or a sequence cut off by the end of the data), after which the
  \<open>replace\<close> handler turns each error span into U+FFFD and decoding resumes behind it.
\<close>

datatype utf8_item = Scalar nat | Malformed

definition is_continuation :: "nat \<Rightarrow> bool" where
  "is_continuation b = (0x80 \<le> b \<and> b < 0xC0)"

text \<open>
  The second byte after a three-byte lead: \<open>E0\<close> needs \<open>A0..BF\<close> (no overlong forms),
  \<open>ED\<close> needs \<open>80..9F\<close> (no surrogates). After a four-byte lead: \<open>F0\<close> needs
  \<open>90..BF\<close>, \<open>F4\<close> needs \<open>80..8F\<close> (nothing above U+10FFFF).
\<close>

definition second_of_three :: "nat \<Rightarrow> nat \<Rightarrow> bool" where
  "second_of_three b b2 =
    (is_continuation b2 \<and> \<not> (if b2 < 0xA0 then b = 0xE0 else b = 0xED))"

definition second_of_four :: "nat \<Rightarrow> nat \<Rightarrow> bool" where
  "second_of_four b b2 =
    (is_continuation b2 \<and> \<not> (if b2 < 0x90 then b = 0xF0 else b = 0xF4))"

fun utf8_scan :: "nat list \<Rightarrow> utf8_item list" where
  "utf8_scan [] = []"
| "utf8_scan (b # bs) =
    (if b < 0x80 then Scalar b # utf8_scan bs
     else if b < 0xC2 then Malformed # utf8_scan bs
     else if b < 0xE0 then
       (case bs of
          [] \<Rightarrow> [Malformed]
        | b2 # bs2 \<Rightarrow>
            if is_continuation b2 then Scalar (b * 64 + b2 - 0x3080) # utf8_scan bs2
            else Malformed # utf8_scan bs)
     else if b < 0xF0 then
       (case bs of
          [] \<Rightarrow> [Malformed]
        | b2 # bs2 \<Rightarrow>
            if \<not> second_of_three b b2 then Malformed # utf8_scan bs
            else
              (case bs2 of
                 [] \<Rightarrow> [Malformed]
               | b3 # bs3 \<Rightarrow>
                   if is_continuation b3
                   then Scalar (b * 4096 + b2 * 64 + b3 - 0xE2080) # utf8_scan bs3
                   else Malformed # utf8_scan bs2))
     else if b < 0xF5 then
       (case bs of
          [] \<Rightarrow> [Malformed]
        | b2 # bs2 \<Rightarrow>
            if \<not> second_of_four b b2 then Malformed # utf8_scan bs
            else
              (case bs2 of
                 [] \<Rightarrow> [Malformed]
               | b3 # bs3 \<Rightarrow>
                   if \<not> is_continuation b3 then Malformed # utf8_scan bs2
                   else
                     (case bs3 of
                        [] \<Rightarrow> [Malformed]
                      | b4 # bs4 \<Rightarrow>
                          if is_continuation b4
                          then Scalar (b * 262144 + b2 * 4096 + b3 * 64 + b4 - 0x3C82080)
                                 # utf8_scan bs4
                          else Malformed # utf8_scan bs3)))
     else Malformed # utf8_scan bs)"

definition replacement_character :: nat where
  "replacement_character = 0xFFFD"

fun replace_item :: "utf8_item \<Rightarrow> nat" where
  "replace_item (Scalar c) = c"
| "replace_item Malformed = replacement_character"

definition decode_utf8_replace :: "bytes \<Rightarrow> str" where
  "decode_utf8_replace bs = map replace_item (utf8_scan (map unat bs))"



section \<open>Job logs\<close>

text \<open>
  \<open>get_job_logs\<close> converts the id, calls \<open>get_job\<close> with the integer, and fetches the
  trace of a job that was found. The call of \<open>get_job\<close> and the call of \<open>job.trace()\<close>
  are inside the \<open>try\<close>, so an exception of either reaches the handlers of
  \<open>get_job_logs\<close>, where \<open>job_id\<close> is already the integer. A print that raises inside
  a handler leaves \<open>get_job_logs\<close> with that exception.
\<close>

definition get_job_logs ::
  "(str \<Rightarrow> str option) \<Rightarrow> (str \<Rightarrow> int option) \<Rightarrow> project \<Rightarrow> id_arg
    \<Rightarrow> exn + (str \<times> out_event list)" where
  "get_job_logs markup_error parse prj jid =
    (case py_int parse jid of
       None \<Rightarrow>
         (case console_print markup_error (invalid_job_id (fmt_id jid)) of
            Inl raised \<Rightarrow> Inl raised
          | Inr ev \<Rightarrow> Inr ([], [ev]))
     | Some n \<Rightarrow>
         (case get_job markup_error parse prj (Int_Id n) of
            Inr (Some j, out) \<Rightarrow>
              (case job_trace prj j of
                 Inr (Trace_Bytes logs_bytes) \<Rightarrow> Inr (decode_utf8_replace logs_bytes, out)
               | Inr (Trace_Text logs) \<Rightarrow> Inr (logs, out)
               | Inl (ValueError m) \<Rightarrow> Inr ([], out @ [invalid_job_id (str_int n)])
               | Inl (OtherError m) \<Rightarrow>
                   Inr ([], out @ [bold_red (lit ''Failed to get logs for job '' @ str_int n
                                              @ lit '': '' @ m)]))
          | Inr (None, out) \<Rightarrow> Inr ([], out)
          | Inl (ValueError m) \<Rightarrow> Inr ([], [invalid_job_id (str_int n)])
          | Inl (OtherError m) \<Rightarrow>
              (case console_print markup_error
                      (bold_red (lit ''Failed to get logs for job '' @ str_int n
                                  @ lit '': '' @ m)) of
                 Inl raised \<Rightarrow> Inl raised
               | Inr ev \<Rightarrow> Inr ([], [ev]))))"




section \<open>Specification-side definitions\<close>

text \<open>
  The specification's wording of \<open>getLatestPipeline\<close>: the first element of
  \<open>listPipelines(1)\<close>, or absent.
\<close>

definition get_latest_pipeline_spec :: "project \<Rightarrow> pipeline option" where
  "get_latest_pipeline_spec prj =
    (case fst (get_pipelines prj 1) of [] \<Rightarrow> None | p # rest \<Rightarrow> Some p)"

text \<open>
  The records a request carries (none when the field is \<open>None\<close>), and the mapping that
  a list of records stands for.
\<close>

definition records_passed :: "create_data \<Rightarrow> variable list" where
  "records_passed d = (case data_variables d of None \<Rightarrow> [] | Some rs \<Rightarrow> rs)"

definition record_items :: "variable list \<Rightarrow> (str \<times> str) list" where
  "record_items rs = map (\<lambda>r. (var_key r, var_value r)) rs"


section \<open>A small project for concrete runs\<close>

text \<open>
  Three pipelines 103, 102, 101 (most recent first), one page per request, an error for a
  page size below one; the jobs of pipeline 103 can be listed, those of 102 cannot; jobs
  7 and 8, the trace of job 7 holding the invalid byte \<open>FF\<close>, the trace of job 8
  failing. \<open>decimal_int\<close> reads a plain string of decimal digits and
  stands in for \<open>parse\<close>.
\<close>

definition demo_pipeline :: "int \<Rightarrow> str \<Rightarrow> pipeline" where
  "demo_pipeline i st =
    \<lparr>pipeline_id = i, pipeline_status = st, pipeline_ref = lit ''main'',
     pipeline_sha = lit ''0123456789abcdef'', pipeline_created_at = lit ''2024-01-01T00:00:00Z''\<rparr>"

definition demo_job :: "int \<Rightarrow> job" where
  "demo_job i =
    \<lparr>job_id = i, job_stage = lit ''test'', job_name = lit ''unit'', job_status = lit ''success''\<rparr>"

definition not_found :: exn where
  "not_found = OtherError (lit ''404: 404 Not Found'')"

definition demo_project :: project where
  "demo_project =
    \<lparr>pipelines_list = (\<lambda>n. if n < 1 then Inl (OtherError (lit ''400: Bad Request''))
        else Inr (take (nat n)
               [demo_pipeline 103 (lit ''running''), demo_pipeline 102 (lit ''failed''),
                demo_pipeline 101 (lit ''success'')])),
     pipelines_get = (\<lambda>i. if i = 103 then Inr (demo_pipeline 103 (lit ''running''))
        else if i = 102 then Inr (demo_pipeline 102 (lit ''failed''))
        else Inl not_found),
     pipelines_create = (\<lambda>d. Inr (demo_pipeline 104 (lit ''created''))),
     pipeline_jobs_list = (\<lambda>p. if pipeline_id p = 103 then Inr [demo_job 7, demo_job 8]
        else Inl (OtherError (lit ''500: Internal Server Error''))),
     jobs_get = (\<lambda>i. if i = 7 \<or> i = 8 then Inr (demo_job i) else Inl not_found),
     job_trace = (\<lambda>j. if job_id j = 7 then Inr (Trace_Bytes [0x6F, 0x6B, 0xFF, 0x0A])
        else Inl (OtherError (lit ''500: Internal Server Error'')))\<rparr>"

definition decimal_int :: "str \<Rightarrow> int option" where
  "decimal_int s =
    (if s \<noteq> [] \<and> list_all (\<lambda>c. 48 \<le> c \<and> c \<le> 57) s
     then Some (fold (\<lambda>c a. a * 10 + int (c - 48)) s 0) else None)"

text \<open>
  \<open>closing_tag_error\<close> stands in for \<open>markup_error\<close> on the messages of the client: it
  rejects a text that holds the closing tag \<open>[/x]\<close>, which no message of the client
  opens. \<open>service_project\<close> is the small project over the modelled list operation, and
  \<open>expecting_project\<close> accepts one request only.
\<close>

fun holds_closing_x :: "str \<Rightarrow> bool" where
  "holds_closing_x (a # b # c # d # rest) =
    ((a = 91 \<and> b = 47 \<and> c = 120 \<and> d = 93) \<or> holds_closing_x (b # c # d # rest))"
| "holds_closing_x short = False"

definition closing_tag_message :: str where
  "closing_tag_message = lit ''closing tag [/x] does not match any open tag''"

definition closing_tag_error :: "str \<Rightarrow> str option" where
  "closing_tag_error text = (if holds_closing_x text then Some closing_tag_message else None)"


definition expecting_project :: "create_data \<Rightarrow> project" where
  "expecting_project expected =
    demo_project\<lparr>pipelines_create :=
      (\<lambda>d. if d = expected then Inr (demo_pipeline 104 (lit ''created''))
           else Inl (OtherError (lit ''400: Bad Request'')))\<rparr>"

section \<open>Properties of the status styles\<close>

lemma status_styles_keys: "set (map fst status_styles) = set known_statuses"
  by (simp add: status_styles_def known_statuses_def insert_commute)

lemma get_status_style_unknown:
  "status \<notin> set known_statuses \<Longrightarrow> get_status_style status = lit ''white''"
proof -
  assume "status \<notin> set known_statuses"
  then have "status \<notin> fst ` set status_styles"
    using status_styles_keys by simp
  then have "map_of status_styles status = None"
    by (simp add: map_of_eq_None_iff)
  then show ?thesis
    by (simp add: get_status_style_def)
qed

text \<open>
  Claim C1. Each of the eight known statuses has its fixed style (success is green, failed
  and canceled are red, running is blue, pending is yellow, skipped is grey, created is
  cyan, manual is magenta), and every other string gets the default style white. The
  function is total: a lookup with a default, with no raising branch.
\<close>

theorem get_status_style_mapping:
  "get_status_style (lit ''success'') = lit ''green'' \<and>
   get_status_style (lit ''failed'') = lit ''red'' \<and>
   get_status_style (lit ''canceled'') = lit ''red'' \<and>
   get_status_style (lit ''running'') = lit ''blue'' \<and>
   get_status_style (lit ''pending'') = lit ''yellow'' \<and>
   get_status_style (lit ''skipped'') = lit ''grey'' \<and>
   get_status_style (lit ''created'') = lit ''cyan'' \<and>
   get_status_style (lit ''manual'') = lit ''magenta'' \<and>
   (status \<notin> set known_statuses \<longrightarrow> get_status_style status = lit ''white'')"
proof -
  have known: "get_status_style (lit ''success'') = lit ''green''"
    "get_status_style (lit ''failed'') = lit ''red''"
    "get_status_style (lit ''canceled'') = lit ''red''"
    "get_status_style (lit ''running'') = lit ''blue''"
    "get_status_style (lit ''pending'') = lit ''yellow''"
    "get_status_style (lit ''skipped'') = lit ''grey''"
    "get_status_style (lit ''created'') = lit ''cyan''"
    "get_status_style (lit ''manual'') = lit ''magenta''"
    by (simp_all add: get_status_style_def status_styles_def lit_def)
  show ?thesis
    using known get_status_style_unknown by blast
qed

theorem get_status_style_mapping_witness:
  "lit ''waiting_for_resource'' \<notin> set known_statuses \<and>
   get_status_style (lit ''waiting_for_resource'') = lit ''white''"
proof -
  have h: "lit ''waiting_for_resource'' \<notin> set known_statuses"
    by (simp add: known_statuses_def lit_def)
  show ?thesis
    using h get_status_style_mapping [of "lit ''waiting_for_resource''"] by blast
qed

section \<open>Facts about the small project\<close>

lemma decimal_int_abc: "decimal_int (lit ''abc'') = None"
  by (simp add: decimal_int_def lit_def)

lemma decimal_int_9999: "decimal_int (lit ''9999'') = Some 9999"
  by (simp add: decimal_int_def lit_def)

lemma demo_jobs_get_9999: "jobs_get demo_project 9999 = Inl (OtherError (lit ''404: 404 Not Found''))"
  by (simp add: demo_project_def not_found_def)

lemma demo_jobs_get_8: "jobs_get demo_project 8 = Inr (demo_job 8)"
  by (simp add: demo_project_def)


lemma demo_trace_8:
  "job_trace demo_project (demo_job 8) = Inl (OtherError (lit ''500: Internal Server Error''))"
  by (simp add: demo_project_def demo_job_def)


lemma demo_get_102: "pipelines_get demo_project 102 = Inr (demo_pipeline 102 (lit ''failed''))"
  by (simp add: demo_project_def)

lemma demo_get_103: "pipelines_get demo_project 103 = Inr (demo_pipeline 103 (lit ''running''))"
  by (simp add: demo_project_def)

lemma demo_get_5: "pipelines_get demo_project 5 = Inl not_found"
  by (simp add: demo_project_def)

lemma demo_jobs_102:
  "pipeline_jobs_list demo_project (demo_pipeline 102 (lit ''failed''))
     = Inl (OtherError (lit ''500: Internal Server Error''))"
  by (simp add: demo_project_def demo_pipeline_def)

lemma demo_jobs_103:
  "pipeline_jobs_list demo_project (demo_pipeline 103 (lit ''running''))
     = Inr [demo_job 7, demo_job 8]"
  by (simp add: demo_project_def demo_pipeline_def)

section \<open>Properties of job lookup\<close>

lemma invalid_job_id_not_failed:
  "invalid_job_id shown \<noteq> bold_red (lit ''Failed to get job '' @ rest)"
  by (simp add: invalid_job_id_def bold_red_def lit_def)

lemma get_job_unparsed:
  "py_int parse jid = None \<Longrightarrow>
   console_print markup_error (invalid_job_id (fmt_id jid)) = Inr ev \<Longrightarrow>
   get_job markup_error parse prj jid = Inr (None, [ev])"
  by (simp add: get_job_def)

lemma get_job_unparsed_raises:
  "py_int parse jid = None \<Longrightarrow>
   console_print markup_error (invalid_job_id (fmt_id jid)) = Inl raised \<Longrightarrow>
   get_job markup_error parse prj jid = Inl raised"
  by (simp add: get_job_def)

lemma get_job_missing:
  "py_int parse jid = Some n \<Longrightarrow> jobs_get prj n = Inl (OtherError m) \<Longrightarrow>
   get_job markup_error parse prj jid =
     Inr (None, [bold_red (lit ''Failed to get job '' @ str_int n @ lit '': '' @ m)])"
  by (simp add: get_job_def)

lemma get_job_int_returns:
  "\<exists>found out. get_job markup_error parse prj (Int_Id n) = Inr (found, out)"
  by (simp add: get_job_def split: sum.split exn.split)

lemma get_job_logs_int_returns:
  "\<exists>logs out. get_job_logs markup_error parse prj (Int_Id n) = Inr (logs, out)"
  by (simp add: get_job_logs_def get_job_def split: sum.split exn.split trace_val.split)

lemma get_job_logs_unparsed:
  "py_int parse jid = None \<Longrightarrow>
   console_print markup_error (invalid_job_id (fmt_id jid)) = Inr ev \<Longrightarrow>
   get_job_logs markup_error parse prj jid = Inr ([], [ev])"
  by (simp add: get_job_logs_def)

lemma get_job_logs_unparsed_raises:
  "py_int parse jid = None \<Longrightarrow>
   console_print markup_error (invalid_job_id (fmt_id jid)) = Inl raised \<Longrightarrow>
   get_job_logs markup_error parse prj jid = Inl raised"
  by (simp add: get_job_logs_def)

lemma get_job_logs_missing:
  "py_int parse jid = Some n \<Longrightarrow> jobs_get prj n = Inl e \<Longrightarrow>
   \<exists>msg. get_job markup_error parse prj (Int_Id n) = Inr (None, [Console msg]) \<and>
         get_job_logs markup_error parse prj jid = Inr ([], [Console msg])"
  by (cases e) (simp_all add: get_job_logs_def get_job_def invalid_job_id_def bold_red_def)

lemma get_job_logs_trace_failed:
  "py_int parse jid = Some n \<Longrightarrow> jobs_get prj n = Inr j \<Longrightarrow> job_trace prj j = Inl e \<Longrightarrow>
   \<exists>out. get_job_logs markup_error parse prj jid = Inr ([], out)"
  by (cases e) (simp_all add: get_job_logs_def get_job_def)

lemma closing_tag_rejects_invalid_x:
  "console_print closing_tag_error (invalid_job_id (lit ''[/x]'')) = Inl (OtherError closing_tag_message)"
  by (simp add: console_print_def closing_tag_error_def invalid_job_id_def bold_red_def lit_def)

lemma closing_tag_accepts_invalid_abc:
  "console_print closing_tag_error (invalid_job_id (lit ''abc'')) = Inr (invalid_job_id (lit ''abc''))"
  by (simp add: console_print_def closing_tag_error_def invalid_job_id_def bold_red_def lit_def)

lemma decimal_int_closing_x: "decimal_int (lit ''[/x]'') = None"
  by (simp add: decimal_int_def lit_def)

text \<open>
  Claim C2 holds for an id string whose diagnostic the rendering library accepts, and
  fails by a slip of the handler for one that it rejects: the id is put into the markup
  unescaped. For the id \<open>abc\<close> both operations print "Invalid job ID: abc. Job ID must
  be an integer." and return; for the id \<open>[/x]\<close>, which is not convertible either,
  \<open>get_job\<close> raises from inside its \<open>ValueError\<close> handler, so no "invalid id" report is
  made and nothing is returned.
\<close>

theorem invalid_id_markup_raises:
  "decimal_int (lit ''[/x]'') = None \<and> decimal_int (lit ''abc'') = None \<and>
   get_job closing_tag_error decimal_int demo_project (Str_Id (lit ''[/x]''))
     = Inl (OtherError closing_tag_message) \<and>
   get_job closing_tag_error decimal_int demo_project (Str_Id (lit ''abc''))
     = Inr (None, [invalid_job_id (lit ''abc'')])"
proof -
  have a: "py_int decimal_int (Str_Id (lit ''[/x]'')) = None"
    using decimal_int_closing_x by simp
  have b: "py_int decimal_int (Str_Id (lit ''abc'')) = None"
    using decimal_int_abc by simp
  have "get_job closing_tag_error decimal_int demo_project (Str_Id (lit ''[/x]''))
      = Inl (OtherError closing_tag_message)"
    using a closing_tag_rejects_invalid_x by (intro get_job_unparsed_raises) simp_all
  moreover have "get_job closing_tag_error decimal_int demo_project (Str_Id (lit ''abc''))
      = Inr (None, [invalid_job_id (lit ''abc'')])"
    using b closing_tag_accepts_invalid_abc by (intro get_job_unparsed) simp_all
  ultimately show ?thesis
    using decimal_int_closing_x decimal_int_abc by simp
qed

text \<open>
  Claim C4 fails by the same slip: for the id \<open>[/x]\<close> \<open>get_job_logs\<close> leaves with the
  error of the print in its \<open>ValueError\<close> handler instead of returning the empty string.
  For the id \<open>abc\<close>, for a job that is not found (9999) and for a trace that cannot be
  fetched (job 8) it returns the empty string.
\<close>

theorem get_job_logs_markup_raises:
  "get_job_logs closing_tag_error decimal_int demo_project (Str_Id (lit ''[/x]''))
     = Inl (OtherError closing_tag_message) \<and>
   get_job_logs closing_tag_error decimal_int demo_project (Str_Id (lit ''abc''))
     = Inr ([], [invalid_job_id (lit ''abc'')]) \<and>
   (\<exists>out. get_job_logs closing_tag_error decimal_int demo_project (Str_Id (lit ''9999''))
     = Inr ([], out)) \<and>
   (\<exists>out. get_job_logs closing_tag_error decimal_int demo_project (Int_Id 8) = Inr ([], out))"
proof -
  have a: "py_int decimal_int (Str_Id (lit ''[/x]'')) = None"
    using decimal_int_closing_x by simp
  have b: "py_int decimal_int (Str_Id (lit ''abc'')) = None"
    using decimal_int_abc by simp
  have c: "py_int decimal_int (Str_Id (lit ''9999'')) = Some 9999"
    using decimal_int_9999 by simp
  have d: "py_int decimal_int (Int_Id 8) = Some 8"
    by simp
  have "get_job_logs closing_tag_error decimal_int demo_project (Str_Id (lit ''[/x]''))
      = Inl (OtherError closing_tag_message)"
    using a closing_tag_rejects_invalid_x by (intro get_job_logs_unparsed_raises) simp_all
  moreover have "get_job_logs closing_tag_error decimal_int demo_project (Str_Id (lit ''abc''))
      = Inr ([], [invalid_job_id (lit ''abc'')])"
    using b closing_tag_accepts_invalid_abc by (intro get_job_logs_unparsed) simp_all
  moreover have "\<exists>out. get_job_logs closing_tag_error decimal_int demo_project
      (Str_Id (lit ''9999'')) = Inr ([], out)"
    using get_job_logs_missing [OF c demo_jobs_get_9999] by blast
  moreover have "\<exists>out. get_job_logs closing_tag_error decimal_int demo_project (Int_Id 8)
      = Inr ([], out)"
    using get_job_logs_trace_failed [OF d demo_jobs_get_8 demo_trace_8] by blast
  ultimately show ?thesis
    by blast
qed

section \<open>Properties of the pipeline operations\<close>

text \<open>
  Claim C6. \<open>get_latest_pipeline\<close> returns the first element of \<open>get_pipelines\<close> with
  limit 1, or \<open>None\<close> when that list is empty, for every project; it prints what
  \<open>get_pipelines\<close> prints.
\<close>

theorem get_latest_pipeline_refines_spec:
  "get_latest_pipeline prj = (get_latest_pipeline_spec prj, snd (get_pipelines prj 1))"
  by (cases "get_pipelines prj 1"; cases "fst (get_pipelines prj 1)")
     (simp_all add: get_latest_pipeline_def get_latest_pipeline_spec_def)




text \<open>
  Claim C9. \<open>get_jobs\<close> resolves the pipeline first. If the pipeline lookup raises, or
  the pipeline is found and listing its jobs raises, the result is the empty list; if
  both succeed the result is the list of jobs, with nothing printed.
\<close>

theorem get_jobs_failures_empty:
  "(pipelines_get prj pid = Inl e \<longrightarrow> fst (get_jobs prj pid) = []) \<and>
   (pipelines_get prj pid = Inr p \<and> pipeline_jobs_list prj p = Inl e' \<longrightarrow>
      fst (get_jobs prj pid) = []) \<and>
   (pipelines_get prj pid = Inr p \<and> pipeline_jobs_list prj p = Inr js \<longrightarrow>
      get_jobs prj pid = (js, []))"
  by (simp add: get_jobs_def get_pipeline_def)

theorem get_jobs_failures_empty_witness:
  "pipelines_get demo_project 5 = Inl not_found \<and> fst (get_jobs demo_project 5) = [] \<and>
   pipelines_get demo_project 102 = Inr (demo_pipeline 102 (lit ''failed'')) \<and>
   pipeline_jobs_list demo_project (demo_pipeline 102 (lit ''failed''))
     = Inl (OtherError (lit ''500: Internal Server Error'')) \<and>
   fst (get_jobs demo_project 102) = [] \<and>
   get_jobs demo_project 103 = ([demo_job 7, demo_job 8], [])"
  using get_jobs_failures_empty [of demo_project 5 not_found]
    get_jobs_failures_empty [of demo_project 102 _ "demo_pipeline 102 (lit ''failed'')"
      "OtherError (lit ''500: Internal Server Error'')"]
    get_jobs_failures_empty [of demo_project 103 _ "demo_pipeline 103 (lit ''running'')" _
      "[demo_job 7, demo_job 8]"]
    demo_get_5 demo_get_102 demo_get_103 demo_jobs_102 demo_jobs_103
  by blast

section \<open>Properties of pipeline creation\<close>

lemma record_items_variables:
  "record_items (map (\<lambda>(k, v). \<lparr>var_key = k, var_value = v\<rparr>) vs) = vs"
  by (induction vs) (auto simp: record_items_def)

lemma records_passed_create_request:
  "records_passed (create_request ref (Some vs)) =
     map (\<lambda>(k, v). \<lparr>var_key = k, var_value = v\<rparr>) vs"
  by (simp add: records_passed_def create_request_def variables_list_def)

text \<open>
  Claim C3. For a variables dictionary with \<open>K\<close> keys (an association list with distinct
  keys), the remote call of \<open>create_pipeline\<close> receives the request whose \<open>variables\<close>
  field lists one record for each item, with the original key and value and in the
  order of the dictionary: \<open>K\<close> records, which read back as a mapping are the input
  mapping. The result of \<open>create_pipeline\<close> is what the service answers to exactly this
  request. For \<open>K = 0\<close> the field is \<open>None\<close>, which carries no record.
\<close>

theorem create_pipeline_passes_variables:
  assumes "distinct (map fst vs)"
  shows "create_pipeline prj ref (Some vs) =
           (case pipelines_create prj
                   \<lparr>data_ref = ref,
                    data_variables =
                      (if vs = [] then None
                       else Some (map (\<lambda>(k, v). \<lparr>var_key = k, var_value = v\<rparr>) vs))\<rparr> of
              Inr p \<Rightarrow> (Some p, [])
            | Inl e \<Rightarrow> (None, [bold_red (lit ''Failed to create pipeline: '' @ str_exn e)])) \<and>
         create_request ref (Some vs) =
           \<lparr>data_ref = ref,
            data_variables =
              (if vs = [] then None
               else Some (map (\<lambda>(k, v). \<lparr>var_key = k, var_value = v\<rparr>) vs))\<rparr> \<and>
         length (records_passed (create_request ref (Some vs))) = card (dom (map_of vs)) \<and>
         record_items (records_passed (create_request ref (Some vs))) = vs \<and>
         map_of (record_items (records_passed (create_request ref (Some vs)))) = map_of vs"
proof -
  have req: "create_request ref (Some vs) =
      \<lparr>data_ref = ref,
       data_variables =
         (if vs = [] then None
          else Some (map (\<lambda>(k, v). \<lparr>var_key = k, var_value = v\<rparr>) vs))\<rparr>"
    by (simp add: create_request_def variables_list_def)
  have call: "create_pipeline prj ref (Some vs) =
      (case pipelines_create prj (create_request ref (Some vs)) of
         Inr p \<Rightarrow> (Some p, [])
       | Inl e \<Rightarrow> (None, [bold_red (lit ''Failed to create pipeline: '' @ str_exn e)]))"
    by (simp add: create_pipeline_def)
  have "card (dom (map_of vs)) = length vs"
    using assms by (simp add: dom_map_of_conv_image_fst distinct_card flip: set_map)
  then have rest: "length (records_passed (create_request ref (Some vs))) = card (dom (map_of vs)) \<and>
      record_items (records_passed (create_request ref (Some vs))) = vs \<and>
      map_of (record_items (records_passed (create_request ref (Some vs)))) = map_of vs"
    by (simp add: records_passed_create_request record_items_variables)
  show ?thesis
    using req call rest by simp
qed

theorem create_pipeline_passes_variables_witness:
  "distinct (map fst [(lit ''FOO'', lit ''bar''), (lit ''BAZ'', lit ''qux'')]) \<and>
   create_pipeline
     (expecting_project
        \<lparr>data_ref = lit ''main'',
         data_variables = Some [\<lparr>var_key = lit ''FOO'', var_value = lit ''bar''\<rparr>,
                                \<lparr>var_key = lit ''BAZ'', var_value = lit ''qux''\<rparr>]\<rparr>)
     (lit ''main'') (Some [(lit ''FOO'', lit ''bar''), (lit ''BAZ'', lit ''qux'')])
     = (Some (demo_pipeline 104 (lit ''created'')), []) \<and>
   length (records_passed (create_request (lit ''main'')
      (Some [(lit ''FOO'', lit ''bar''), (lit ''BAZ'', lit ''qux'')]))) = 2"
proof -
  have h: "distinct (map fst [(lit ''FOO'', lit ''bar''), (lit ''BAZ'', lit ''qux'')])"
    by (simp add: lit_def)
  have k: "card (dom (map_of [(lit ''FOO'', lit ''bar''), (lit ''BAZ'', lit ''qux'')])) = 2"
    by (simp add: lit_def)
  note passes = create_pipeline_passes_variables [OF h, of _ "lit ''main''"]
  have call: "create_pipeline
     (expecting_project
        \<lparr>data_ref = lit ''main'',
         data_variables = Some [\<lparr>var_key = lit ''FOO'', var_value = lit ''bar''\<rparr>,
                                \<lparr>var_key = lit ''BAZ'', var_value = lit ''qux''\<rparr>]\<rparr>)
     (lit ''main'') (Some [(lit ''FOO'', lit ''bar''), (lit ''BAZ'', lit ''qux'')])
     = (Some (demo_pipeline 104 (lit ''created'')), [])"
    using passes by (simp add: expecting_project_def)
  have "length (records_passed (create_request (lit ''main'')
      (Some [(lit ''FOO'', lit ''bar''), (lit ''BAZ'', lit ''qux'')])))
      = card (dom (map_of [(lit ''FOO'', lit ''bar''), (lit ''BAZ'', lit ''qux'')]))"
    using passes by blast
  then have len: "length (records_passed (create_request (lit ''main'')
      (Some [(lit ''FOO'', lit ''bar''), (lit ''BAZ'', lit ''qux'')]))) = 2"
    using k by (rule trans)
  show ?thesis
    using h call len by blast
qed

text \<open>
  Claim C10. With an empty variables dictionary the \<open>variables\<close> field of the request is
  \<open>None\<close>; the request, and with it the whole operation, is the same as with the
  variables omitted.
\<close>

theorem create_pipeline_empty_variables:
  "data_variables (create_request ref (Some [])) = None \<and>
   create_request ref (Some []) = create_request ref None \<and>
   create_pipeline prj ref (Some []) = create_pipeline prj ref None"
  by (simp add: create_pipeline_def create_request_def variables_list_def)

section \<open>Properties of the logs command\<close>





section \<open>Properties of the trace decoder\<close>

























end
